theory Spec2Isabelle
  imports Main "HOL-Library.Sublist"
begin

section \<open>Strings\<close>

text \<open>
  Strings are lists of characters and are read as ASCII text.  \<open>str.lower()\<close> maps the
  letters \<open>A\<close>..\<open>Z\<close> to \<open>a\<close>..\<open>z\<close> and leaves every other character alone;
  \<open>str.split()\<close> without arguments separates at runs of the ASCII whitespace
  characters (tab, line feed, vertical tab, form feed, carriage return, the four
  separators \<open>0x1C\<close>..\<open>0x1F\<close> and the space).  \<open>w in query\<close> on two strings is the
  contiguous-substring test, \<^const>\<open>sublist\<close>.
\<close>

definition lower_char :: "char \<Rightarrow> char" where
  "lower_char c =
     (let n = (of_char c :: nat) in if 65 \<le> n \<and> n \<le> 90 then char_of (n + 32) else c)"

definition lower :: "string \<Rightarrow> string" where
  "lower s = map lower_char s"

definition is_space :: "char \<Rightarrow> bool" where
  "is_space c =
     (let n = (of_char c :: nat) in (9 \<le> n \<and> n \<le> 13) \<or> (28 \<le> n \<and> n \<le> 32))"

text \<open>\<open>text.split()\<close>: \<open>cur\<close> is the token being read.\<close>

fun split_from :: "string \<Rightarrow> string \<Rightarrow> string list" where
  "split_from cur [] = (if cur = [] then [] else [cur])"
| "split_from cur (c # cs) =
     (if is_space c then (if cur = [] then split_from [] cs else cur # split_from [] cs)
      else split_from (cur @ [c]) cs)"

definition split :: "string \<Rightarrow> string list" where
  "split text = split_from [] text"

text \<open>\<open>' '.join(tokens)\<close>.\<close>

fun join :: "string list \<Rightarrow> string" where
  "join [] = []"
| "join [t] = t"
| "join (t # u # ts) = t @ CHR '' '' # join (u # ts)"

text \<open>
  \<open>tokens[:n]\<close> for a Python integer \<open>n\<close>: the first \<open>n\<close> elements when \<open>n\<close> is not
  negative, and all but the last \<open>-n\<close> elements when it is.
\<close>

definition slice_to :: "'a list \<Rightarrow> int \<Rightarrow> 'a list" where
  "slice_to xs n = (if 0 \<le> n then take (nat n) xs else take (length xs - nat (- n)) xs)"

definition limit_token_size :: "string \<Rightarrow> int \<Rightarrow> string" where
  "limit_token_size text max_tokens =
     (let tokens = split text in join (slice_to tokens max_tokens))"

text \<open>A token: a non-empty string without whitespace.\<close>

definition is_token :: "string \<Rightarrow> bool" where
  "is_token t = (t \<noteq> [] \<and> list_all (\<lambda>c. \<not> is_space c) t)"

section \<open>Values, tables and the file system\<close>

text \<open>
  A scalar of a request or of a table cell: JSON \<open>null\<close> (Python \<open>None\<close>; in a table
  the missing value \<open>NaN\<close>), a number, or a string.
\<close>

datatype val = VNull | VNum int | VStr string

text \<open>
  A data frame: the column names of the header row, and the rows in file order.
  \<open>cell\<close> reads the value of a row under a column name (a row shorter than the header
  is missing its last cells, as after \<open>read_csv\<close>).
\<close>

record table =
  columns :: "string list"
  rows :: "val list list"

definition cell :: "string list \<Rightarrow> val list \<Rightarrow> string \<Rightarrow> val" where
  "cell cols r c = (case map_of (zip cols r) c of Some v \<Rightarrow> v | None \<Rightarrow> VNull)"

text \<open>
  The elementwise \<open>==\<close> of a column against a scalar: equal values of the same kind;
  a missing cell equals nothing, and nothing equals \<open>None\<close>.
\<close>

definition pd_eq :: "val \<Rightarrow> val \<Rightarrow> bool" where
  "pd_eq a b = (a \<noteq> VNull \<and> a = b)"

text \<open>\<open>df[df[col] == v]\<close>.\<close>

definition select_eq :: "string \<Rightarrow> val \<Rightarrow> table \<Rightarrow> table" where
  "select_eq col v df = df\<lparr>rows := filter (\<lambda>r. pd_eq (cell (columns df) r col) v) (rows df)\<rparr>"

text \<open>
  What \<open>os.path.exists\<close> and \<open>pd.read_csv\<close> find under a path: nothing, a file that
  \<open>read_csv\<close> rejects with a message, or a table.
\<close>

datatype disk_file = Unreadable string | Csv table

type_synonym filesystem = "string \<rightharpoonup> disk_file"

section \<open>Requests, responses and exceptions\<close>

text \<open>One entry of \<open>additional_filters\<close>; \<open>f.get(key)\<close> of an absent key is \<open>None\<close>.\<close>

record filter_cond =
  column_name :: val
  cond_value :: val

text \<open>
  The \<open>args\<close> mapping of a filter request, with the three keys the handler reads;
  \<open>None\<close> is an absent key.
\<close>

record filter_args =
  arg_primary_name :: "val option"
  arg_source :: "string option"
  arg_additional_filters :: "filter_cond list option"

text \<open>The body \<open>data\<close> of the other requests: a mapping from keys to scalars.\<close>

type_synonym body = "string \<rightharpoonup> val"

datatype response =
    Error string
  | FilteredData string
  | Args string string "filter_cond list"
  | Message string
  | Records "(string \<times> val) list list"

text \<open>
  An exception that leaves a handler: \<open>Inl\<close> of a handler's result.  \<open>Inr\<close> is the
  payload the handler returns.
\<close>

datatype exn = AttributeError | KeyError string | CredentialsError string

section \<open>The filter endpoint\<close>

definition required_fields :: "string list" where
  "required_fields = [''primary_name'', ''source'']"

definition has_field :: "filter_args \<Rightarrow> string \<Rightarrow> bool" where
  "has_field args field =
     (if field = ''primary_name'' then arg_primary_name args \<noteq> None
      else if field = ''source'' then arg_source args \<noteq> None
      else if field = ''additional_filters'' then arg_additional_filters args \<noteq> None
      else False)"

text \<open>The validation loop: the first required field that is not in \<open>args\<close>.\<close>

fun missing_field :: "filter_args \<Rightarrow> string list \<Rightarrow> string option" where
  "missing_field args [] = None"
| "missing_field args (field # rest) =
     (if \<not> has_field args field then Some field else missing_field args rest)"

text \<open>One round of the loop over \<open>filters\<close>: \<open>col in df.columns\<close> guards the selection.\<close>

definition apply_filter :: "filter_cond \<Rightarrow> table \<Rightarrow> table" where
  "apply_filter f df =
     (case column_name f of
        VStr col \<Rightarrow> if col \<in> set (columns df) then select_eq col (cond_value f) df else df
      | _ \<Rightarrow> df)"

fun apply_filters :: "filter_cond list \<Rightarrow> table \<Rightarrow> table" where
  "apply_filters [] df = df"
| "apply_filters (f # fs) df = apply_filters fs (apply_filter f df)"

text \<open>The filtering of \<open>filter_information\<close>: the primary name, then the additional filters.\<close>

definition filter_rows :: "val \<Rightarrow> filter_cond list \<Rightarrow> table \<Rightarrow> table" where
  "filter_rows primary_name filters df =
     apply_filters filters
       (if ''primary_name'' \<in> set (columns df) then select_eq ''primary_name'' primary_name df
        else df)"

text \<open>
  The handler.  \<open>to_string\<close> stands for \<open>df.to_string(index=False)\<close>, the rendering of
  the data frame by the library.
\<close>

definition filter_information ::
    "filesystem \<Rightarrow> (table \<Rightarrow> string) \<Rightarrow> filter_args \<Rightarrow> exn + response" where
  "filter_information fs to_string args =
     (case missing_field args required_fields of
        Some field \<Rightarrow> Inr (Error (field @ '' is required''))
      | None \<Rightarrow>
         (case arg_primary_name args of
            None \<Rightarrow> Inl (KeyError ''primary_name'')
          | Some primary_name \<Rightarrow>
             (case arg_source args of
                None \<Rightarrow> Inl (KeyError ''source'')
              | Some source \<Rightarrow>
                 (let filters = (case arg_additional_filters args of None \<Rightarrow> [] | Some fl \<Rightarrow> fl);
                      file_path = ''data/'' @ source @ ''.csv''
                  in case fs file_path of
                       None \<Rightarrow> Inr (Error (''File '' @ source @ ''.csv not found''))
                     | Some (Unreadable e) \<Rightarrow> Inr (Error (''Error reading file: '' @ e))
                     | Some (Csv df) \<Rightarrow>
                         Inr (FilteredData
                           (limit_token_size (to_string (filter_rows primary_name filters df)) 800))))))"

section \<open>The query router\<close>

definition routing_map :: "(string \<times> string list) list" where
  "routing_map =
     [(''activities'', [''activity'', ''indoor'', ''outdoor'']),
      (''room-information'', [''room'', ''suite'', ''deluxe'', ''guest'']),
      (''pricing'', [''price'', ''cost'', ''charges'', ''rate'']),
      (''rules'', [''rule'', ''policy'', ''checkin'', ''checkout'']),
      (''queries'', [''staff'', ''hire'', ''help'', ''housekeeping''])]"

definition known_locations :: "string list" where
  "known_locations = [''sterling kodai lake'', ''sterling holidays'']"

text \<open>The truth value of a variable that holds \<open>None\<close> or a string.\<close>

definition truthy :: "string option \<Rightarrow> bool" where
  "truthy x = (case x of None \<Rightarrow> False | Some s \<Rightarrow> s \<noteq> [])"

text \<open>The inner loop over the keywords of one category, with its \<open>break\<close>.\<close>

fun scan_keywords :: "string \<Rightarrow> string \<Rightarrow> string list \<Rightarrow> string option \<Rightarrow> string option" where
  "scan_keywords query source [] selected_source = selected_source"
| "scan_keywords query source (word # keywords) selected_source =
     (if sublist word query then Some source
      else scan_keywords query source keywords selected_source)"

text \<open>The outer loop over the categories, which stops once a source is selected.\<close>

fun scan_sources ::
    "string \<Rightarrow> (string \<times> string list) list \<Rightarrow> string option \<Rightarrow> string option" where
  "scan_sources query [] selected_source = selected_source"
| "scan_sources query ((source, keywords) # items) selected_source =
     (let selected_source' = scan_keywords query source keywords selected_source
      in if truthy selected_source' then selected_source'
         else scan_sources query items selected_source')"

definition select_source :: "string \<Rightarrow> string option" where
  "select_source query = scan_sources query routing_map None"

text \<open>\<open>next((loc for loc in known_locations if loc in query), None)\<close>.\<close>

definition match_location :: "string \<Rightarrow> string option" where
  "match_location query = find (\<lambda>loc. sublist loc query) known_locations"

text \<open>\<open>data.get("query", "").lower()\<close>: only a string has \<open>lower\<close>.\<close>

definition get_query :: "body \<Rightarrow> exn + string" where
  "get_query data =
     (case data ''query'' of
        None \<Rightarrow> Inr (lower [])
      | Some (VStr s) \<Rightarrow> Inr (lower s)
      | Some _ \<Rightarrow> Inl AttributeError)"

definition route_query :: "body \<Rightarrow> exn + response" where
  "route_query data =
     (case get_query data of
        Inl e \<Rightarrow> Inl e
      | Inr query \<Rightarrow>
         if query = [] then Inr (Error ''Query is required'')
         else
           (let selected_source = select_source query
            in if \<not> truthy selected_source
               then Inr (Error ''Could not determine source from query'')
               else
                 (let matched_location = match_location query;
                      matched_location =
                        (if \<not> truthy matched_location then Some ''Sterling_Holidays''
                         else matched_location)
                  in case selected_source of
                       Some source \<Rightarrow> Inr (Args ''Sterling_Holidays'' source [])
                     | None \<Rightarrow> Inr (Error ''Could not determine source from query''))))"

section \<open>The query endpoint\<close>

text \<open>
  \<open>series.str.lower()\<close>: the \<open>str\<close> accessor raises \<open>AttributeError\<close> on a column that
  holds values but no string (a numeric column); on a column of strings it lowers each
  string and leaves every other cell missing.
\<close>

definition is_str :: "val \<Rightarrow> bool" where
  "is_str v = (case v of VStr s \<Rightarrow> True | _ \<Rightarrow> False)"

definition str_lower :: "val list \<Rightarrow> exn + val list" where
  "str_lower series =
     (if series \<noteq> [] \<and> \<not> list_ex is_str series then Inl AttributeError
      else Inr (map (\<lambda>v. case v of VStr s \<Rightarrow> VStr (lower s) | _ \<Rightarrow> VNull) series))"

text \<open>\<open>df[df['primary_name'].str.lower() == matched_location]\<close>.\<close>

definition filter_location :: "table \<Rightarrow> string \<Rightarrow> exn + table" where
  "filter_location df matched_location =
     (if ''primary_name'' \<notin> set (columns df) then Inl (KeyError ''primary_name'')
      else
        (case str_lower (map (\<lambda>r. cell (columns df) r ''primary_name'') (rows df)) of
           Inl e \<Rightarrow> Inl e
         | Inr lowered \<Rightarrow>
             Inr (df\<lparr>rows :=
               map snd (filter (\<lambda>(v, r). pd_eq v (VStr matched_location))
                 (zip lowered (rows df)))\<rparr>)))"

text \<open>\<open>df.empty\<close>, \<open>df.head(5)\<close> and \<open>df.to_dict(orient="records")\<close>.\<close>

definition empty_df :: "table \<Rightarrow> bool" where
  "empty_df df = (columns df = [] \<or> rows df = [])"

definition head :: "nat \<Rightarrow> table \<Rightarrow> table" where
  "head n df = df\<lparr>rows := take n (rows df)\<rparr>"

definition to_dict_records :: "table \<Rightarrow> (string \<times> val) list list" where
  "to_dict_records df = map (\<lambda>r. map (\<lambda>c. (c, cell (columns df) r c)) (columns df)) (rows df)"

definition handle_query :: "filesystem \<Rightarrow> body \<Rightarrow> exn + response" where
  "handle_query fs data =
     (case get_query data of
        Inl e \<Rightarrow> Inl e
      | Inr query \<Rightarrow>
         if query = [] then Inr (Error ''Query is required'')
         else
           (let selected_source = select_source query
            in case selected_source of
                 None \<Rightarrow> Inr (Error ''Could not determine data source from query.'')
               | Some source \<Rightarrow>
                  if source = [] then Inr (Error ''Could not determine data source from query.'')
                  else
                    (let matched_location = match_location query;
                         primary_name =
                           (if truthy matched_location then ''Sterling_Holidays''
                            else ''Sterling_Holidays'');
                         file_path = ''public/agent_directory/'' @ source @ ''.csv''
                     in case fs file_path of
                          None \<Rightarrow> Inr (Error (source @ ''.csv not found.''))
                        | Some (Unreadable e) \<Rightarrow> Inr (Error (''Failed to read CSV: '' @ e))
                        | Some (Csv df) \<Rightarrow>
                            (case (case matched_location of
                                     None \<Rightarrow> Inr df
                                   | Some loc \<Rightarrow> if loc = [] then Inr df
                                                else filter_location df loc) of
                               Inl e \<Rightarrow> Inl e
                             | Inr filtered_df \<Rightarrow>
                                 if empty_df filtered_df then Inr (Message ''No results found.'')
                                 else Inr (Records (to_dict_records (head 5 filtered_df)))))))"

section \<open>The spreadsheet logger\<close>

text \<open>
  The spreadsheet service as the handler meets it: whether loading the credentials
  (\<open>from_json_keyfile_name\<close>, \<open>authorize\<close>), opening the sheet or appending a row raises,
  each with its message, and the rows of the sheet.
\<close>

record sheets =
  credentials_failure :: "string option"
  open_failure :: "string option"
  append_failure :: "string option"
  sheet1 :: "val list list"

text \<open>\<open>data.get(key, default)\<close>.\<close>

definition get :: "body \<Rightarrow> string \<Rightarrow> val \<Rightarrow> val" where
  "get data key dflt = (case data key of None \<Rightarrow> dflt | Some v \<Rightarrow> v)"

text \<open>The success message; its first character is U+2705, three bytes in UTF-8.\<close>

definition call_log_added :: string where
  "call_log_added = [CHR 0xE2, CHR 0x9C, CHR 0x85] @ '' Call log added successfully''"

text \<open>The handler; \<open>now\<close> is the formatted \<open>datetime.now()\<close>.\<close>

definition log_to_google_sheet :: "sheets \<Rightarrow> string \<Rightarrow> body \<Rightarrow> (exn + response) \<times> sheets" where
  "log_to_google_sheet service now data =
     (case credentials_failure service of
        Some e \<Rightarrow> (Inl (CredentialsError e), service)
      | None \<Rightarrow>
         (case open_failure service of
            Some e \<Rightarrow> (Inr (Error (''Could not open sheet: '' @ e)), service)
          | None \<Rightarrow>
             (let row =
                    [get data ''call_time'' (VStr now),
                     get data ''phone_number'' (VStr ''NA''),
                     get data ''call_outcome'' (VStr ''NA''),
                     get data ''customer_name'' (VStr ''NA''),
                     get data ''room_name'' (VStr ''NA''),
                     get data ''check_in'' (VStr ''NA''),
                     get data ''check_out'' (VStr ''NA''),
                     get data ''guests'' (VStr ''NA''),
                     get data ''call_summary'' (VStr ''NA'')]
              in case append_failure service of
                   Some e \<Rightarrow> (Inr (Error (''Error appending row: '' @ e)), service)
                 | None \<Rightarrow>
                     (Inr (Message call_log_added),
                      service\<lparr>sheet1 := sheet1 service @ [row]\<rparr>))))"

section \<open>Reference definitions\<close>

text \<open>
  The selection of a category as the specification words it: the keywords of all
  categories in declared order, each with its category, and the category of the first
  keyword that is a substring of the query.
\<close>

definition keyword_table :: "(string \<times> string list) list \<Rightarrow> (string \<times> string) list" where
  "keyword_table rm =
     concat (map (\<lambda>(source, keywords). map (\<lambda>word. (word, source)) keywords) rm)"

definition first_keyword_match :: "(string \<times> string list) list \<Rightarrow> string \<Rightarrow> string option" where
  "first_keyword_match rm query =
     map_option snd (find (\<lambda>(word, source). sublist word query) (keyword_table rm))"

text \<open>
  The conditions of a filter request on one row, as the specification words them: the
  primary-name condition applies when the table has that column, an additional
  condition applies when its column exists, and a row matches when every condition
  that applies holds.
\<close>

definition condition_applies :: "table \<Rightarrow> filter_cond \<Rightarrow> bool" where
  "condition_applies df f =
     (case column_name f of VStr col \<Rightarrow> col \<in> set (columns df) | _ \<Rightarrow> False)"

definition condition_holds :: "table \<Rightarrow> val list \<Rightarrow> filter_cond \<Rightarrow> bool" where
  "condition_holds df r f =
     (case column_name f of
        VStr col \<Rightarrow> pd_eq (cell (columns df) r col) (cond_value f)
      | _ \<Rightarrow> False)"

definition row_matches :: "val \<Rightarrow> filter_cond list \<Rightarrow> table \<Rightarrow> val list \<Rightarrow> bool" where
  "row_matches primary_name filters df r =
     ((''primary_name'' \<in> set (columns df) \<longrightarrow>
         pd_eq (cell (columns df) r ''primary_name'') primary_name) \<and>
      list_all (\<lambda>f. condition_applies df f \<longrightarrow> condition_holds df r f) filters)"

section \<open>The text truncator\<close>

lemma split_from_tokens:
  "cur = [] \<or> is_token cur \<Longrightarrow> t \<in> set (split_from cur s) \<Longrightarrow> is_token t"
proof (induction cur s rule: split_from.induct)
  case (1 cur)
  then show ?case by (cases "cur = []") simp_all
next
  case (2 cur c cs)
  show ?case
  proof (cases "is_space c")
    case True
    with 2 show ?thesis by (cases "cur = []") auto
  next
    case False
    have "is_token (cur @ [c])"
      using 2(4) False by (auto simp: is_token_def)
    with 2(3)[OF False] 2(5) False show ?thesis by simp
  qed
qed

lemma split_tokens: "t \<in> set (split s) \<Longrightarrow> is_token t"
  unfolding split_def using split_from_tokens [of "[]" t s] by simp

lemma split_from_append:
  "list_all (\<lambda>c. \<not> is_space c) t \<Longrightarrow> split_from cur (t @ s) = split_from (cur @ t) s"
  by (induction t arbitrary: cur) simp_all

lemma split_from_token_end: "is_token t \<Longrightarrow> split_from [] t = [t]"
  using split_from_append [of t "[]" "[]"] by (simp add: is_token_def)

lemma split_from_token_space:
  "is_token t \<Longrightarrow> split_from [] (t @ CHR '' '' # s) = t # split_from [] s"
proof -
  assume t: "is_token t"
  have sp: "is_space (CHR '' '')" by (simp add: is_space_def)
  have "split_from [] (t @ CHR '' '' # s) = split_from ([] @ t) (CHR '' '' # s)"
    using t by (intro split_from_append) (simp add: is_token_def)
  also have "\<dots> = t # split_from [] s"
    using t sp by (simp add: is_token_def)
  finally show ?thesis .
qed

lemma split_join: "list_all is_token ts \<Longrightarrow> split (join ts) = ts"
proof (induction ts rule: join.induct)
  case 1
  show ?case by (simp add: split_def)
next
  case (2 t)
  then show ?case by (simp add: split_def split_from_token_end)
next
  case (3 t u ts)
  then have "split_from [] (join (u # ts)) = u # ts" by (simp add: split_def)
  with 3(2) show ?case by (simp add: split_def split_from_token_space)
qed

lemma split_limit_token_size: "split (limit_token_size s n) = slice_to (split s) n"
proof -
  have "list_all is_token (split s)"
    by (simp add: list_all_iff split_tokens)
  then have "list_all is_token (slice_to (split s) n)"
    by (auto simp: slice_to_def list_all_iff dest: in_set_takeD)
  then show ?thesis
    by (simp add: limit_token_size_def split_join)
qed

text \<open>
  Claim C4.  For a maximum token count \<open>max_tokens\<close> (a count, so not negative) the
  truncator splits the text at whitespace, keeps the first \<open>max_tokens\<close> tokens and
  joins them with single blanks; its output has \<open>min (token count of the input)
  max_tokens\<close> tokens, and the tokens of the output are a prefix of the tokens of the
  input, in their order.
\<close>

theorem limit_token_size_count:
  "prefix (split (limit_token_size s n)) (split s) \<and>
   (0 \<le> n \<longrightarrow>
      limit_token_size s n = join (take (nat n) (split s)) \<and>
      int (length (split (limit_token_size s n))) = min (int (length (split s))) n)"
proof -
  have "prefix (slice_to (split s) n) (split s)"
    by (simp add: slice_to_def take_is_prefix)
  moreover have "0 \<le> n \<Longrightarrow> int (length (slice_to (split s) n)) = min (int (length (split s))) n"
    by (auto simp: slice_to_def min_def)
  ultimately show ?thesis
    by (simp add: split_limit_token_size) (simp add: limit_token_size_def slice_to_def)
qed

theorem limit_token_size_count_witness:
  "limit_token_size ''  a b   c  '' 2 = ''a b'' \<and>
   int (length (split (limit_token_size ''  a b   c  '' 2))) = min (int (length (split ''  a b   c  ''))) 2 \<and>
   prefix (split (limit_token_size ''  a b   c  '' 2)) (split ''  a b   c  '')"
proof -
  have h: "(0::int) \<le> 2" by simp
  note t = limit_token_size_count [of "''  a b   c  ''" 2]
  note c = t [THEN conjunct1]
  note ab = t [THEN conjunct2, rule_format, OF h]
  have e: "split ''  a b   c  '' = [''a'', ''b'', ''c'']" by code_simp
  have j: "join (take (nat 2) [''a'', ''b'', ''c'']) = ''a b''" by code_simp
  have a: "limit_token_size ''  a b   c  '' 2 = ''a b''"
    using ab [THEN conjunct1] by (simp only: e j)
  from a ab [THEN conjunct2] c show ?thesis by (intro conjI)
qed

section \<open>The query router and its endpoints\<close>

lemma scan_keywords_find:
  "scan_keywords query source keywords sel =
     (case find (\<lambda>(word, source). sublist word query) (map (\<lambda>word. (word, source)) keywords) of
        None \<Rightarrow> sel | Some p \<Rightarrow> Some (snd p))"
  by (induction "keywords") simp_all

lemma find_append:
  "find P (xs @ ys) = (case find P xs of None \<Rightarrow> find P ys | Some x \<Rightarrow> Some x)"
  by (induction xs) simp_all

lemma find_map_snd:
  "find (\<lambda>(word, source). sublist word query) (map (\<lambda>word. (word, source)) keywords) = Some p
   \<Longrightarrow> snd p = source"
  by (induction "keywords") (auto split: if_splits)

lemma scan_sources_first_match:
  "list_all (\<lambda>(source, keywords). source \<noteq> []) rm \<Longrightarrow>
   scan_sources query rm None = first_keyword_match rm query"
proof (induction rm)
  case Nil
  show ?case by (simp add: first_keyword_match_def keyword_table_def)
next
  case (Cons item rm)
  obtain source ws where item: "item = (source, ws)" by (cases item)
  from Cons.prems item have src: "source \<noteq> []" by simp
  from Cons have IH: "scan_sources query rm None = first_keyword_match rm query" by simp
  let ?f = "find (\<lambda>(word, source). sublist word query) (map (\<lambda>word. (word, source)) ws)"
  show ?case
  proof (cases ?f)
    case None
    then show ?thesis
      using IH item
      by (simp add: scan_keywords_find truthy_def first_keyword_match_def keyword_table_def find_append)
  next
    case (Some p)
    with find_map_snd [of query source ws p] have "snd p = source" by simp
    with Some src show ?thesis
      using item
      by (simp add: scan_keywords_find truthy_def first_keyword_match_def keyword_table_def find_append)
  qed
qed

lemma select_source_first_match: "select_source query = first_keyword_match routing_map query"
  unfolding select_source_def by (rule scan_sources_first_match) (simp add: routing_map_def)

lemma select_source_known:
  "select_source query = Some source \<Longrightarrow> source \<in> set (map fst routing_map)"
proof -
  assume "select_source query = Some source"
  then obtain p where
    p: "find (\<lambda>(word, source). sublist word query) (keyword_table routing_map) = Some p"
    and s: "snd p = source"
    by (auto simp: select_source_first_match first_keyword_match_def)
  from p have "p \<in> set (keyword_table routing_map)"
    by (auto simp: find_Some_iff dest: nth_mem)
  then have "snd p \<in> set (map fst routing_map)"
    by (auto simp: keyword_table_def routing_map_def)
  with s show ?thesis by simp
qed

lemma select_source_truthy: "truthy (select_source query) \<longleftrightarrow> select_source query \<noteq> None"
proof (cases "select_source query")
  case None
  then show ?thesis by (simp add: truthy_def)
next
  case (Some source)
  from select_source_known [OF Some] have "source \<noteq> []"
    by (auto simp: routing_map_def)
  with Some show ?thesis by (simp add: truthy_def)
qed


lemma select_source_empty: "select_source [] = None"
  by code_simp

lemma get_query_string: "data ''query'' = Some (VStr q) \<Longrightarrow> get_query data = Inr (lower q)"
  by (simp add: get_query_def)

lemma get_query_absent: "data ''query'' = None \<Longrightarrow> get_query data = Inr []"
  by (simp add: get_query_def lower_def)

lemma route_query_selected:
  "get_query data = Inr query \<Longrightarrow> query \<noteq> [] \<Longrightarrow>
   route_query data =
     (case select_source query of
        None \<Rightarrow> Inr (Error ''Could not determine source from query'')
      | Some source \<Rightarrow> Inr (Args ''Sterling_Holidays'' source []))"
proof (cases "select_source query")
  case None
  assume "get_query data = Inr query" "query \<noteq> []"
  with None show ?thesis
    by (simp add: route_query_def truthy_def)
next
  case (Some source)
  assume g: "get_query data = Inr query" "query \<noteq> []"
  from select_source_truthy [of query] Some have "truthy (Some source)" by simp
  with g Some show ?thesis
    by (simp add: route_query_def Let_def)
qed

text \<open>
  Claim C1.  The category of the route endpoint is the one the specification describes:
  the query is lowered, and the category of the first keyword, in the declared order of
  categories and of keywords, that is a substring of the lowered query is selected.
\<close>

theorem route_query_first_keyword:
  "data ''query'' = Some (VStr q) \<Longrightarrow> lower q \<noteq> [] \<Longrightarrow>
   map fst routing_map = [''activities'', ''room-information'', ''pricing'', ''rules'', ''queries''] \<and>
   select_source (lower q) = first_keyword_match routing_map (lower q) \<and>
   route_query data =
     (case first_keyword_match routing_map (lower q) of
        None \<Rightarrow> Inr (Error ''Could not determine source from query'')
      | Some source \<Rightarrow> Inr (Args ''Sterling_Holidays'' source []))"
proof -
  assume q: "data ''query'' = Some (VStr q)" and ne: "lower q \<noteq> []"
  have "map fst routing_map = [''activities'', ''room-information'', ''pricing'', ''rules'', ''queries'']"
    by (simp add: routing_map_def)
  moreover note select_source_first_match [of "lower q"]
  moreover have "route_query data =
     (case select_source (lower q) of
        None \<Rightarrow> Inr (Error ''Could not determine source from query'')
      | Some source \<Rightarrow> Inr (Args ''Sterling_Holidays'' source []))"
    using get_query_string [of data q, OF q] ne by (rule route_query_selected)
  ultimately show ?thesis by (simp only: simp_thms)
qed

theorem route_query_first_keyword_witness:
  "first_keyword_match routing_map (lower ''what is the room rate'') = Some ''room-information'' \<and>
   route_query [''query'' \<mapsto> VStr ''what is the room rate''] =
     Inr (Args ''Sterling_Holidays'' ''room-information'' []) \<and>
   route_query [''query'' \<mapsto> VStr ''What is the ROOM rate''] =
     Inr (Args ''Sterling_Holidays'' ''room-information'' [])"
proof -
  have l: "lower ''what is the room rate'' = ''what is the room rate''" by code_simp
  have u: "lower ''What is the ROOM rate'' = ''what is the room rate''" by code_simp
  have m: "first_keyword_match routing_map ''what is the room rate'' = Some ''room-information''"
    by code_simp
  have ne: "lower ''what is the room rate'' \<noteq> []" by (simp add: l)
  have ne': "lower ''What is the ROOM rate'' \<noteq> []" by (simp add: u)
  have q: "[''query'' \<mapsto> VStr ''what is the room rate''] ''query'' = Some (VStr ''what is the room rate'')"
    by simp
  have q': "[''query'' \<mapsto> VStr ''What is the ROOM rate''] ''query'' = Some (VStr ''What is the ROOM rate'')"
    by simp
  from route_query_first_keyword [of "[''query'' \<mapsto> VStr ''what is the room rate'']" "''what is the room rate''", OF q ne]
  have a: "route_query [''query'' \<mapsto> VStr ''what is the room rate''] =
     Inr (Args ''Sterling_Holidays'' ''room-information'' [])"
    by (simp add: l m)
  from route_query_first_keyword [of "[''query'' \<mapsto> VStr ''What is the ROOM rate'']" "''What is the ROOM rate''", OF q' ne']
  have b: "route_query [''query'' \<mapsto> VStr ''What is the ROOM rate''] =
     Inr (Args ''Sterling_Holidays'' ''room-information'' [])"
    by (simp add: u m)
  from a b show ?thesis by (simp only: l m simp_thms)
qed

text \<open>
  Claim C2.  Whenever the lowered query selects a category, the route endpoint answers
  with the fixed primary name \<open>Sterling_Holidays\<close>, that category and no additional
  filters, whatever location the query names.
\<close>

theorem route_query_success:
  "data ''query'' = Some (VStr q) \<Longrightarrow> select_source (lower q) = Some source \<Longrightarrow>
   route_query data = Inr (Args ''Sterling_Holidays'' source [])"
proof -
  assume q: "data ''query'' = Some (VStr q)" and s: "select_source (lower q) = Some source"
  from s have "lower q \<noteq> []" by (auto simp: select_source_empty)
  with get_query_string [of data q, OF q] s show ?thesis
    by (simp add: route_query_selected)
qed

theorem route_query_success_witness:
  "route_query [''query'' \<mapsto> VStr ''checkin policy''] = Inr (Args ''Sterling_Holidays'' ''rules'' []) \<and>
   match_location (lower ''Room price at Sterling Kodai Lake'') = Some ''sterling kodai lake'' \<and>
   route_query [''query'' \<mapsto> VStr ''Room price at Sterling Kodai Lake''] =
     Inr (Args ''Sterling_Holidays'' ''room-information'' [])"
proof -
  have s1: "select_source (lower ''checkin policy'') = Some ''rules''" by code_simp
  have s2: "select_source (lower ''Room price at Sterling Kodai Lake'') = Some ''room-information''"
    by code_simp
  have m: "match_location (lower ''Room price at Sterling Kodai Lake'') = Some ''sterling kodai lake''"
    by code_simp
  have a: "route_query [''query'' \<mapsto> VStr ''checkin policy''] = Inr (Args ''Sterling_Holidays'' ''rules'' [])"
    by (rule route_query_success [of _ "''checkin policy''", OF _ s1]) simp
  have b: "route_query [''query'' \<mapsto> VStr ''Room price at Sterling Kodai Lake''] =
     Inr (Args ''Sterling_Holidays'' ''room-information'' [])"
    by (rule route_query_success [of _ "''Room price at Sterling Kodai Lake''", OF _ s2]) simp
  from a m b show ?thesis by (intro conjI)
qed

text \<open>
  Claim C10.  A body without the key \<open>query\<close> is answered by the route endpoint and by
  the query endpoint as a body whose query is the empty string is: with the error
  \<open>Query is required\<close>.
\<close>

theorem query_key_absent:
  "data ''query'' = None \<Longrightarrow>
   route_query data = Inr (Error ''Query is required'') \<and>
   handle_query fs data = Inr (Error ''Query is required'') \<and>
   route_query (data(''query'' \<mapsto> VStr [])) = route_query data \<and>
   handle_query fs (data(''query'' \<mapsto> VStr [])) = handle_query fs data"
  by (simp add: route_query_def handle_query_def get_query_def lower_def)

theorem query_key_absent_witness:
  "route_query Map.empty = Inr (Error ''Query is required'') \<and>
   handle_query Map.empty Map.empty = Inr (Error ''Query is required'') \<and>
   route_query [''query'' \<mapsto> VStr []] = route_query Map.empty \<and>
   handle_query Map.empty [''query'' \<mapsto> VStr []] = handle_query Map.empty Map.empty"
  using query_key_absent [of Map.empty Map.empty] by simp

section \<open>The equality filter and the filter endpoint\<close>

lemma columns_select_eq: "columns (select_eq col v df) = columns df"
  by (simp add: select_eq_def)

lemma rows_select_eq:
  "rows (select_eq col v df) = filter (\<lambda>r. pd_eq (cell (columns df) r col) v) (rows df)"
  by (simp add: select_eq_def)

lemma columns_apply_filter: "columns (apply_filter f df) = columns df"
  by (simp add: apply_filter_def columns_select_eq split: val.splits)

lemma rows_apply_filter:
  "rows (apply_filter f df) =
     filter (\<lambda>r. condition_applies df f \<longrightarrow> condition_holds df r f) (rows df)"
  by (simp add: apply_filter_def condition_applies_def condition_holds_def rows_select_eq
      split: val.splits)

lemma more_apply_filter: "table.more (apply_filter f df) = table.more df"
  by (simp add: apply_filter_def select_eq_def split: val.splits)

lemma condition_applies_cong:
  "columns df' = columns df \<Longrightarrow> condition_applies df' f = condition_applies df f"
  by (simp add: condition_applies_def split: val.splits)

lemma condition_holds_cong:
  "columns df' = columns df \<Longrightarrow> condition_holds df' r f = condition_holds df r f"
  by (simp add: condition_holds_def split: val.splits)

lemma apply_filters_filter:
  "apply_filters fs df =
     df\<lparr>rows := filter (\<lambda>r. list_all (\<lambda>f. condition_applies df f \<longrightarrow> condition_holds df r f) fs)
       (rows df)\<rparr>"
proof (induction fs arbitrary: df)
  case Nil
  show ?case by simp
next
  case (Cons f fs)
  let ?df = "apply_filter f df"
  have c: "columns ?df = columns df" by (rule columns_apply_filter)
  have "apply_filters (f # fs) df = apply_filters fs ?df" by simp
  also have "\<dots> = ?df\<lparr>rows := filter (\<lambda>r. list_all (\<lambda>g. condition_applies ?df g \<longrightarrow> condition_holds ?df r g) fs) (rows ?df)\<rparr>"
    by (rule Cons.IH)
  also have "\<dots> = df\<lparr>rows := filter (\<lambda>r. list_all (\<lambda>g. condition_applies df g \<longrightarrow> condition_holds df r g) (f # fs)) (rows df)\<rparr>"
    by (rule table.equality)
       (auto simp: c more_apply_filter rows_apply_filter condition_applies_cong [OF c]
          condition_holds_cong [OF c] intro: filter_cong)
  finally show ?case .
qed

lemma filter_rows_filter:
  "filter_rows primary_name fs df = df\<lparr>rows := filter (row_matches primary_name fs df) (rows df)\<rparr>"
proof (cases "''primary_name'' \<in> set (columns df)")
  case False
  then show ?thesis
    by (simp add: filter_rows_def apply_filters_filter row_matches_def [abs_def])
next
  case True
  let ?df = "select_eq ''primary_name'' primary_name df"
  have c: "columns ?df = columns df" by (rule columns_select_eq)
  have m: "table.more ?df = table.more df" by (simp add: select_eq_def)
  have "filter_rows primary_name fs df = apply_filters fs ?df"
    using True by (simp add: filter_rows_def)
  also have "\<dots> = ?df\<lparr>rows := filter (\<lambda>r. list_all (\<lambda>g. condition_applies ?df g \<longrightarrow> condition_holds ?df r g) fs) (rows ?df)\<rparr>"
    by (rule apply_filters_filter)
  also have "\<dots> = df\<lparr>rows := filter (row_matches primary_name fs df) (rows df)\<rparr>"
    using True
    by (intro table.equality)
       (auto simp: c m rows_select_eq row_matches_def condition_applies_cong [OF c]
          condition_holds_cong [OF c] intro: filter_cong)
  finally show ?thesis .
qed

lemma row_matches_cong:
  "columns df' = columns df \<Longrightarrow> row_matches pn fs df' = row_matches pn fs df"
proof (rule ext)
  fix r
  assume c: "columns df' = columns df"
  show "row_matches pn fs df' r = row_matches pn fs df r"
    by (simp add: row_matches_def c condition_applies_cong [OF c] condition_holds_cong [OF c])
qed

lemma filter_rows_twice:
  "filter_rows pn fs (filter_rows pn fs df) = filter_rows pn fs df"
proof -
  let ?df = "filter_rows pn fs df"
  have c: "columns ?df = columns df" by (simp add: filter_rows_filter)
  have r: "rows ?df = filter (row_matches pn fs df) (rows df)" by (simp add: filter_rows_filter)
  have "filter_rows pn fs ?df = ?df\<lparr>rows := filter (row_matches pn fs ?df) (rows ?df)\<rparr>"
    by (rule filter_rows_filter)
  also have "\<dots> = ?df"
    by (simp add: row_matches_cong [OF c] r)
  finally show ?thesis .
qed


text \<open>
  Claim C3.  The filtering of the filter endpoint keeps the columns and keeps, in their
  order, exactly the rows that match: the primary-name condition counts only when the
  table has a \<open>primary_name\<close> column, an additional condition only when its column
  exists, and each condition that counts is the equality of the cell and the value.
\<close>

theorem filter_rows_exact:
  "filter_rows primary_name fs df =
     df\<lparr>rows := filter (row_matches primary_name fs df) (rows df)\<rparr> \<and>
   columns (filter_rows primary_name fs df) = columns df \<and>
   (''primary_name'' \<notin> set (columns df) \<longrightarrow>
      filter_rows primary_name fs df = apply_filters fs df)"
proof -
  have "columns (filter_rows primary_name fs df) = columns df"
    by (simp add: filter_rows_filter)
  moreover have "''primary_name'' \<notin> set (columns df) \<longrightarrow>
      filter_rows primary_name fs df = apply_filters fs df"
    by (simp add: filter_rows_def)
  ultimately show ?thesis
    using filter_rows_filter [of primary_name fs df] by (intro conjI)
qed

theorem filter_rows_exact_witness:
  "filter_rows (VStr ''X'')
     [\<lparr>column_name = VStr ''city'', cond_value = VStr ''Ooty''\<rparr>,
      \<lparr>column_name = VStr ''stars'', cond_value = VNum 5\<rparr>]
     \<lparr>columns = [''primary_name'', ''city''],
      rows = [[VStr ''X'', VStr ''Ooty''], [VStr ''Y'', VStr ''Ooty''],
              [VStr ''X'', VStr ''Goa''], [VStr ''X'', VNull], [VStr ''X'', VStr ''Ooty'']]\<rparr> =
   \<lparr>columns = [''primary_name'', ''city''],
    rows = [[VStr ''X'', VStr ''Ooty''], [VStr ''X'', VStr ''Ooty'']]\<rparr> \<and>
   filter_rows (VStr ''X'')
     [\<lparr>column_name = VStr ''city'', cond_value = VStr ''Ooty''\<rparr>]
     \<lparr>columns = [''name'', ''city''],
      rows = [[VStr ''Y'', VStr ''Ooty''], [VStr ''X'', VStr ''Goa'']]\<rparr> =
   \<lparr>columns = [''name'', ''city''], rows = [[VStr ''Y'', VStr ''Ooty'']]\<rparr>"
proof -
  let ?fs = "[\<lparr>column_name = VStr ''city'', cond_value = VStr ''Ooty''\<rparr>,
      \<lparr>column_name = VStr ''stars'', cond_value = VNum 5\<rparr>]"
  let ?df = "\<lparr>columns = [''primary_name'', ''city''],
      rows = [[VStr ''X'', VStr ''Ooty''], [VStr ''Y'', VStr ''Ooty''],
              [VStr ''X'', VStr ''Goa''], [VStr ''X'', VNull], [VStr ''X'', VStr ''Ooty'']]\<rparr>"
  let ?gs = "[\<lparr>column_name = VStr ''city'', cond_value = VStr ''Ooty''\<rparr>]"
  let ?dg = "\<lparr>columns = [''name'', ''city''],
      rows = [[VStr ''Y'', VStr ''Ooty''], [VStr ''X'', VStr ''Goa'']]\<rparr>"
  have a: "filter (row_matches (VStr ''X'') ?fs ?df) (rows ?df) =
      [[VStr ''X'', VStr ''Ooty''], [VStr ''X'', VStr ''Ooty'']]"
    by (simp add: row_matches_def condition_applies_def condition_holds_def cell_def pd_eq_def)
  have b: "filter (row_matches (VStr ''X'') ?gs ?dg) (rows ?dg) = [[VStr ''Y'', VStr ''Ooty'']]"
    by (simp add: row_matches_def condition_applies_def condition_holds_def cell_def pd_eq_def)
  from filter_rows_exact [of "VStr ''X''" ?fs ?df, THEN conjunct1]
  have 1: "filter_rows (VStr ''X'') ?fs ?df =
      \<lparr>columns = [''primary_name'', ''city''],
       rows = [[VStr ''X'', VStr ''Ooty''], [VStr ''X'', VStr ''Ooty'']]\<rparr>"
    by (simp only: a) simp
  from filter_rows_exact [of "VStr ''X''" ?gs ?dg, THEN conjunct1]
  have 2: "filter_rows (VStr ''X'') ?gs ?dg =
      \<lparr>columns = [''name'', ''city''], rows = [[VStr ''Y'', VStr ''Ooty'']]\<rparr>"
    by (simp only: b) simp
  from 1 2 show ?thesis by (intro conjI)
qed

text \<open>
  Claim C8.  Filtering is idempotent: filtering the filtered table again, by the same
  primary name and the same additional conditions, changes nothing.
\<close>

theorem filter_rows_idempotent:
  "filter_rows primary_name fs (filter_rows primary_name fs df) = filter_rows primary_name fs df"
  by (rule filter_rows_twice)

lemma missing_field_find:
  "missing_field args names = find (\<lambda>field. \<not> has_field args field) names"
  by (induction names) simp_all

text \<open>
  Claim C9.  When a required field is missing from \<open>args\<close>, the filter endpoint answers
  with \<open><field> is required\<close> for the first of \<open>primary_name\<close>, \<open>source\<close> that is
  missing.
\<close>

theorem filter_information_required:
  "find (\<lambda>field. \<not> has_field args field) required_fields = Some field \<Longrightarrow>
   filter_information fs to_string args = Inr (Error (field @ '' is required'')) \<and>
   field = (if arg_primary_name args = None then ''primary_name'' else ''source'') \<and>
   (arg_primary_name args = None \<or> arg_source args = None)"
  by (auto simp: filter_information_def missing_field_find required_fields_def has_field_def
      split: if_splits)

theorem filter_information_required_witness:
  "filter_information Map.empty (\<lambda>df. [])
     \<lparr>arg_primary_name = None, arg_source = None, arg_additional_filters = None\<rparr> =
     Inr (Error ''primary_name is required'') \<and>
   filter_information Map.empty (\<lambda>df. [])
     \<lparr>arg_primary_name = Some (VStr ''X''), arg_source = None, arg_additional_filters = None\<rparr> =
     Inr (Error ''source is required'') \<and>
   filter_information Map.empty (\<lambda>df. [])
     \<lparr>arg_primary_name = None, arg_source = Some ''rooms'', arg_additional_filters = None\<rparr> =
     Inr (Error ''primary_name is required'')"
proof -
  let ?a = "\<lparr>arg_primary_name = None, arg_source = None, arg_additional_filters = None\<rparr>"
  let ?b = "\<lparr>arg_primary_name = Some (VStr ''X''), arg_source = None, arg_additional_filters = None\<rparr>"
  let ?c = "\<lparr>arg_primary_name = None, arg_source = Some ''rooms'', arg_additional_filters = None\<rparr>"
  have fa: "find (\<lambda>field. \<not> has_field ?a field) required_fields = Some ''primary_name''"
    by (simp add: required_fields_def has_field_def)
  have fb: "find (\<lambda>field. \<not> has_field ?b field) required_fields = Some ''source''"
    by (simp add: required_fields_def has_field_def)
  have fc: "find (\<lambda>field. \<not> has_field ?c field) required_fields = Some ''primary_name''"
    by (simp add: required_fields_def has_field_def)
  from filter_information_required [OF fa, of Map.empty "\<lambda>df. []"]
       filter_information_required [OF fb, of Map.empty "\<lambda>df. []"]
       filter_information_required [OF fc, of Map.empty "\<lambda>df. []"]
  show ?thesis by simp
qed

section \<open>The query endpoint and the missing file\<close>

lemma handle_query_selected:
  "data ''query'' = Some (VStr q) \<Longrightarrow> select_source (lower q) = Some source \<Longrightarrow>
   handle_query fs data =
     (case fs (''public/agent_directory/'' @ source @ ''.csv'') of
        None \<Rightarrow> Inr (Error (source @ ''.csv not found.''))
      | Some (Unreadable e) \<Rightarrow> Inr (Error (''Failed to read CSV: '' @ e))
      | Some (Csv df) \<Rightarrow>
          (case (case match_location (lower q) of
                   None \<Rightarrow> Inr df
                 | Some loc \<Rightarrow> filter_location df loc) of
             Inl e \<Rightarrow> Inl e
           | Inr filtered_df \<Rightarrow>
               if empty_df filtered_df then Inr (Message ''No results found.'')
               else Inr (Records (to_dict_records (head 5 filtered_df)))))"
proof -
  assume q: "data ''query'' = Some (VStr q)" and s: "select_source (lower q) = Some source"
  from s have ne: "lower q \<noteq> []" by (auto simp: select_source_empty)
  from select_source_known [OF s] have sne: "source \<noteq> []"
    by (auto simp: routing_map_def)
  have loc: "\<And>loc. match_location (lower q) = Some loc \<Longrightarrow> loc \<noteq> []"
    by (auto simp: match_location_def known_locations_def split: if_splits)
  show ?thesis
    using get_query_string [of data q, OF q] ne s sne loc
    by (auto simp: handle_query_def Let_def split: option.splits disk_file.splits)
qed

text \<open>
  Claim C6, as the code has it.  When the file of the source does not exist, the filter
  endpoint answers \<open>File <source>.csv not found\<close>, which ends with \<open>.csv not found\<close>,
  and the query endpoint answers \<open><category>.csv not found.\<close>, which holds the name
  and \<open>.csv not found\<close> and ends with a full stop.
\<close>

theorem csv_not_found:
  "(arg_primary_name args = Some primary_name \<longrightarrow> arg_source args = Some source \<longrightarrow>
      fs (''data/'' @ source @ ''.csv'') = None \<longrightarrow>
      filter_information fs to_string args = Inr (Error (''File '' @ source @ ''.csv not found'')) \<and>
      suffix ''.csv not found'' (''File '' @ source @ ''.csv not found'')) \<and>
   (data ''query'' = Some (VStr q) \<longrightarrow> select_source (lower q) = Some source \<longrightarrow>
      fs (''public/agent_directory/'' @ source @ ''.csv'') = None \<longrightarrow>
      handle_query fs data = Inr (Error (source @ ''.csv not found'' @ ''.'')))"
proof (intro conjI impI)
  assume "arg_primary_name args = Some primary_name" "arg_source args = Some source"
    "fs (''data/'' @ source @ ''.csv'') = None"
  then show "filter_information fs to_string args = Inr (Error (''File '' @ source @ ''.csv not found''))"
    by (simp add: filter_information_def required_fields_def has_field_def)
next
  have "suffix ''.csv not found'' ((''File '' @ source) @ ''.csv not found'')"
    by (rule suffix_appendI) simp
  then show "suffix ''.csv not found'' (''File '' @ source @ ''.csv not found'')" by simp
next
  assume "data ''query'' = Some (VStr q)" "select_source (lower q) = Some source"
    "fs (''public/agent_directory/'' @ source @ ''.csv'') = None"
  then show "handle_query fs data = Inr (Error (source @ ''.csv not found'' @ ''.''))"
    by (simp add: handle_query_selected)
qed

theorem csv_not_found_witness:
  "filter_information Map.empty (\<lambda>df. [])
     \<lparr>arg_primary_name = Some (VStr ''X''), arg_source = Some ''missing'',
      arg_additional_filters = None\<rparr> = Inr (Error ''File missing.csv not found'') \<and>
   handle_query Map.empty [''query'' \<mapsto> VStr ''room''] =
     Inr (Error ''room-information.csv not found.'')"
proof -
  let ?args = "\<lparr>arg_primary_name = Some (VStr ''X''), arg_source = Some ''missing'',
      arg_additional_filters = None\<rparr>"
  have s: "select_source (lower ''room'') = Some ''room-information''" by code_simp
  note t = csv_not_found [of ?args "VStr ''X''" "''missing''" Map.empty "\<lambda>df. []"]
  note u = csv_not_found [of _ _ "''room-information''" Map.empty _ "[''query'' \<mapsto> VStr ''room'']" "''room''"]
  from t have a: "filter_information Map.empty (\<lambda>df. []) ?args = Inr (Error ''File missing.csv not found'')"
    by simp
  from u s have b: "handle_query Map.empty [''query'' \<mapsto> VStr ''room''] =
     Inr (Error ''room-information.csv not found.'')"
    by simp
  from a b show ?thesis by (intro conjI)
qed

text \<open>
  The message of the query endpoint does not end with \<open>.csv not found\<close>: a full stop
  follows.
\<close>

theorem csv_not_found_suffix_counterexample:
  "handle_query Map.empty [''query'' \<mapsto> VStr ''room''] =
     Inr (Error ''room-information.csv not found.'') \<and>
   \<not> suffix ''.csv not found'' ''room-information.csv not found.''"
proof -
  have s: "select_source (lower ''room'') = Some ''room-information''" by code_simp
  have "handle_query Map.empty [''query'' \<mapsto> VStr ''room''] =
     Inr (Error ''room-information.csv not found.'')"
    using handle_query_selected [of "[''query'' \<mapsto> VStr ''room'']" "''room''", OF _ s, of Map.empty]
    by simp
  moreover have "\<not> suffix ''.csv not found'' ''room-information.csv not found.''"
    by code_simp
  ultimately show ?thesis by (intro conjI)
qed

lemma filter_zip_map:
  "map snd (filter (\<lambda>(v, r). P v) (zip (map f xs) xs)) = filter (\<lambda>r. P (f r)) xs"
  by (induction xs) simp_all

lemma known_location_lower:
  "match_location query = Some loc \<Longrightarrow> lower loc = loc \<and> loc \<noteq> []"
proof -
  have l1: "lower ''sterling kodai lake'' = ''sterling kodai lake''" by code_simp
  have l2: "lower ''sterling holidays'' = ''sterling holidays''" by code_simp
  assume "match_location query = Some loc"
  then have "loc = ''sterling kodai lake'' \<or> loc = ''sterling holidays''"
    by (auto simp: match_location_def known_locations_def split: if_splits)
  with l1 l2 show ?thesis by auto
qed

lemma pd_eq_lowered:
  "pd_eq (case v of VStr s \<Rightarrow> VStr (lower s) | _ \<Rightarrow> VNull) (VStr loc) =
     (case v of VStr s \<Rightarrow> lower s = loc | _ \<Rightarrow> False)"
  by (cases v) (simp_all add: pd_eq_def)

text \<open>
  The query endpoint on a table that has a \<open>primary_name\<close> column of text (or no rows):
  with a location in the query it keeps the rows whose primary name equals the location
  up to case, without one it keeps all rows; an empty result is answered with the
  message, any other with its first five rows.
\<close>

lemma filter_location_rows:
  "''primary_name'' \<in> set (columns df) \<Longrightarrow>
   rows df = [] \<or> list_ex (\<lambda>r. is_str (cell (columns df) r ''primary_name'')) (rows df) \<Longrightarrow>
   filter_location df loc =
     Inr (df\<lparr>rows := filter (\<lambda>r. case cell (columns df) r ''primary_name'' of
                                    VStr s \<Rightarrow> lower s = loc | _ \<Rightarrow> False) (rows df)\<rparr>)"
proof -
  assume c: "''primary_name'' \<in> set (columns df)"
    and t: "rows df = [] \<or> list_ex (\<lambda>r. is_str (cell (columns df) r ''primary_name'')) (rows df)"
  let ?series = "map (\<lambda>r. cell (columns df) r ''primary_name'') (rows df)"
  from t have "\<not> (?series \<noteq> [] \<and> \<not> list_ex is_str ?series)"
    by (auto simp: list_ex_iff)
  then have s: "str_lower ?series =
      Inr (map (\<lambda>v. case v of VStr s \<Rightarrow> VStr (lower s) | _ \<Rightarrow> VNull) ?series)"
    unfolding str_lower_def by (simp only: if_False)
  have "map snd (filter (\<lambda>(v, r). pd_eq v (VStr loc))
          (zip (map (\<lambda>r. case cell (columns df) r ''primary_name'' of
                            VStr s \<Rightarrow> VStr (lower s) | _ \<Rightarrow> VNull) (rows df)) (rows df))) =
        filter (\<lambda>r. case cell (columns df) r ''primary_name'' of
                        VStr s \<Rightarrow> lower s = loc | _ \<Rightarrow> False) (rows df)"
    by (simp add: filter_zip_map pd_eq_lowered)
  with c s show ?thesis
    by (simp add: filter_location_def comp_def)
qed

lemma handle_query_rows:
  "data ''query'' = Some (VStr q) \<Longrightarrow> select_source (lower q) = Some source \<Longrightarrow>
   fs (''public/agent_directory/'' @ source @ ''.csv'') = Some (Csv df) \<Longrightarrow>
   (match_location (lower q) = None \<longrightarrow>
      handle_query fs data =
        (if empty_df df then Inr (Message ''No results found.'')
         else Inr (Records (to_dict_records (head 5 df))))) \<and>
   (match_location (lower q) = Some loc \<longrightarrow> ''primary_name'' \<in> set (columns df) \<longrightarrow>
    (rows df = [] \<or> list_ex (\<lambda>r. is_str (cell (columns df) r ''primary_name'')) (rows df)) \<longrightarrow>
      handle_query fs data =
        (let kept = df\<lparr>rows := filter (\<lambda>r. case cell (columns df) r ''primary_name'' of
                                        VStr s \<Rightarrow> lower s = lower loc | _ \<Rightarrow> False) (rows df)\<rparr>
         in if empty_df kept then Inr (Message ''No results found.'')
            else Inr (Records (to_dict_records (head 5 kept)))))"
proof (intro conjI impI)
  assume a: "data ''query'' = Some (VStr q)" "select_source (lower q) = Some source"
    "fs (''public/agent_directory/'' @ source @ ''.csv'') = Some (Csv df)"
  {
    assume "match_location (lower q) = None"
    with a show "handle_query fs data =
        (if empty_df df then Inr (Message ''No results found.'')
         else Inr (Records (to_dict_records (head 5 df))))"
      by (simp add: handle_query_selected)
  next
    assume m: "match_location (lower q) = Some loc"
      and c: "''primary_name'' \<in> set (columns df)"
      and t: "rows df = [] \<or> list_ex (\<lambda>r. is_str (cell (columns df) r ''primary_name'')) (rows df)"
    from known_location_lower [OF m] have l: "lower loc = loc" by simp
    from a m show "handle_query fs data =
        (let kept = df\<lparr>rows := filter (\<lambda>r. case cell (columns df) r ''primary_name'' of
                                        VStr s \<Rightarrow> lower s = lower loc | _ \<Rightarrow> False) (rows df)\<rparr>
         in if empty_df kept then Inr (Message ''No results found.'')
            else Inr (Records (to_dict_records (head 5 kept))))"
      unfolding l by (simp add: handle_query_selected filter_location_rows [OF c t] Let_def)
  }
qed

text \<open>
  Claim C7.  With a location in the query and a table without a \<open>primary_name\<close> column,
  the query endpoint returns neither the message nor rows: \<open>df['primary_name']\<close> raises
  \<open>KeyError\<close>, which leaves the handler.
\<close>

theorem handle_query_missing_column:
  "data ''query'' = Some (VStr q) \<Longrightarrow> select_source (lower q) = Some source \<Longrightarrow>
   fs (''public/agent_directory/'' @ source @ ''.csv'') = Some (Csv df) \<Longrightarrow>
   match_location (lower q) = Some loc \<Longrightarrow> ''primary_name'' \<notin> set (columns df) \<Longrightarrow>
   handle_query fs data = Inl (KeyError ''primary_name'')"
  by (simp add: handle_query_selected filter_location_def)

theorem handle_query_missing_column_witness:
  "handle_query
     [''public/agent_directory/room-information.csv'' \<mapsto>
        Csv \<lparr>columns = [''name'', ''beds''], rows = [[VStr ''Deluxe'', VNum 2]]\<rparr>]
     [''query'' \<mapsto> VStr ''Rooms at Sterling Holidays''] = Inl (KeyError ''primary_name'')"
proof -
  let ?df = "\<lparr>columns = [''name'', ''beds''], rows = [[VStr ''Deluxe'', VNum 2]]\<rparr>"
  let ?fs = "[''public/agent_directory/room-information.csv'' \<mapsto> Csv ?df]"
  let ?data = "[''query'' \<mapsto> VStr ''Rooms at Sterling Holidays'']"
  have q: "?data ''query'' = Some (VStr ''Rooms at Sterling Holidays'')" by simp
  have s: "select_source (lower ''Rooms at Sterling Holidays'') = Some ''room-information''"
    by code_simp
  have m: "match_location (lower ''Rooms at Sterling Holidays'') = Some ''sterling holidays''"
    by code_simp
  have f: "?fs (''public/agent_directory/'' @ ''room-information'' @ ''.csv'') = Some (Csv ?df)"
    by simp
  have c: "''primary_name'' \<notin> set (columns ?df)" by simp
  show ?thesis
    by (rule handle_query_missing_column
          [of ?data "''Rooms at Sterling Holidays''" "''room-information''" ?fs ?df
             "''sterling holidays''", OF q s f m c])
qed

section \<open>The spreadsheet logger and its failures\<close>

lemma log_to_google_sheet_caught:
  "credentials_failure service = None \<Longrightarrow>
   fst (log_to_google_sheet service now data) =
     (case open_failure service of
        Some e \<Rightarrow> Inr (Error (''Could not open sheet: '' @ e))
      | None \<Rightarrow>
         (case append_failure service of
            Some e \<Rightarrow> Inr (Error (''Error appending row: '' @ e))
          | None \<Rightarrow> Inr (Message call_log_added)))"
  by (simp add: log_to_google_sheet_def Let_def split: option.splits)

text \<open>
  Claim C5.  A failure to load the credentials in the spreadsheet logger is not turned
  into an error payload: the exception leaves the handler, and the sheet is untouched.
\<close>

theorem log_to_google_sheet_credentials:
  "credentials_failure service = Some e \<Longrightarrow>
   log_to_google_sheet service now data = (Inl (CredentialsError e), service)"
  by (simp add: log_to_google_sheet_def)

theorem log_to_google_sheet_credentials_witness:
  "log_to_google_sheet
     \<lparr>credentials_failure = Some ''No such file or directory: creds.json'',
      open_failure = None, append_failure = None, sheet1 = []\<rparr>
     ''2025-01-01 10:00:00'' [''phone_number'' \<mapsto> VStr ''100''] =
   (Inl (CredentialsError ''No such file or directory: creds.json''),
    \<lparr>credentials_failure = Some ''No such file or directory: creds.json'',
      open_failure = None, append_failure = None, sheet1 = []\<rparr>)"
  by (rule log_to_google_sheet_credentials) simp

end
